theory Spec2Isabelle
  imports Main "HOL-Library.Sublist"
begin

section \<open>The memvid MCP server (mcp/src/index.ts)\<close>

text \<open>
  The server receives a tool name and an argument bag, compiles an argument vector for
  the memvid command-line program, runs it, parses its standard output as JSON and
  renders one text block. This theory embeds \<^verbatim>\<open>resolvePath\<close>, \<^verbatim>\<open>runCli\<close>,
  \<^verbatim>\<open>TOOLS\<close> and the \<^verbatim>\<open>CallToolRequestSchema\<close> handler.
\<close>

subsection \<open>JavaScript values\<close>

text \<open>
  The argument bag and the parsed output are untyped at run time (the TypeScript casts
  \<^verbatim>\<open>as string\<close> do nothing there), so both are values of the JSON fragment of
  JavaScript, with \<^verbatim>\<open>undefined\<close> for a property that is not there. An object is the
  association list of its own properties; a read takes the first binding of a key.

  Scope of the value model: a number is an integer (limits, Unix timestamps and frame
  identifiers are), written in plain decimal by \<^verbatim>\<open>String\<close>, as JavaScript does below
  \<open>10\<^sup>2\<^sup>1\<close>; fractions, \<^verbatim>\<open>NaN\<close> and the infinities are not represented.
  A string is a list of 8-bit characters, one per code unit.
\<close>

datatype jsval =
    JUndefined
  | JNull
  | JBool bool
  | JNum int
  | JStr string
  | JArr "jsval list"
  | JObj "(string \<times> jsval) list"

text \<open>What \<^verbatim>\<open>throw\<close> carries: the error class and its \<^verbatim>\<open>message\<close>.\<close>

datatype fault =
    Error string
  | TypeError string
  | SyntaxError string
  | RangeError string

fun message :: "fault \<Rightarrow> string" where
  "message (Error m) = m"
| "message (TypeError m) = m"
| "message (SyntaxError m) = m"
| "message (RangeError m) = m"

text \<open>\<^verbatim>\<open>if (v)\<close>, \<^verbatim>\<open>!v\<close>, \<^verbatim>\<open>a || b\<close>, \<^verbatim>\<open>c ? x : y\<close>: the truthiness of a value.\<close>

fun truthy :: "jsval \<Rightarrow> bool" where
  "truthy JUndefined = False"
| "truthy JNull = False"
| "truthy (JBool b) = b"
| "truthy (JNum n) = (n \<noteq> 0)"
| "truthy (JStr s) = (s \<noteq> [])"
| "truthy (JArr xs) = True"
| "truthy (JObj kvs) = True"

text \<open>\<^verbatim>\<open>a || b\<close>\<close>

definition js_or :: "jsval \<Rightarrow> jsval \<Rightarrow> jsval" where
  "js_or a b = (if truthy a then a else b)"

text \<open>\<^verbatim>\<open>Array.isArray(v)\<close>\<close>

fun isArray :: "jsval \<Rightarrow> bool" where
  "isArray (JArr xs) = True"
| "isArray v = False"

text \<open>Decimal digits of a natural number, most significant first.\<close>

fun digits :: "nat \<Rightarrow> string" where
  "digits n =
     (if n < 10 then [char_of (48 + n)]
      else digits (n div 10) @ [char_of (48 + n mod 10)])"

definition number_to_string :: "int \<Rightarrow> string" where
  "number_to_string n = (if n < 0 then CHR ''-'' # digits (nat (- n)) else digits (nat n))"

text \<open>
  \<^verbatim>\<open>String(v)\<close> and the conversion inside a template literal \<^verbatim>\<open>`${v}`\<close>. An array
  is joined with commas, \<^verbatim>\<open>null\<close> and \<^verbatim>\<open>undefined\<close> elements giving the empty
  string. A plain object gives \<^verbatim>\<open>[object Object]\<close>, unless it has an own property
  \<^verbatim>\<open>toString\<close>: a parsed value is never callable, the inherited \<^verbatim>\<open>valueOf\<close>
  returns the object itself, and the conversion throws a TypeError.
\<close>

definition bindF :: "fault + 'a \<Rightarrow> ('a \<Rightarrow> fault + 'b) \<Rightarrow> fault + 'b" where
  "bindF r f = (case r of Inl e \<Rightarrow> Inl e | Inr v \<Rightarrow> f v)"

fun join_comma :: "string list \<Rightarrow> string" where
  "join_comma [] = []"
| "join_comma [s] = s"
| "join_comma (s # t # ss) = s @ '','' @ join_comma (t # ss)"

fun js_String :: "jsval \<Rightarrow> fault + string"
  and join_elems :: "jsval list \<Rightarrow> fault + string list" where
  "js_String JUndefined = Inr ''undefined''"
| "js_String JNull = Inr ''null''"
| "js_String (JBool b) = Inr (if b then ''true'' else ''false'')"
| "js_String (JNum n) = Inr (number_to_string n)"
| "js_String (JStr s) = Inr s"
| "js_String (JArr xs) =
     (case join_elems xs of Inl e \<Rightarrow> Inl e | Inr ss \<Rightarrow> Inr (join_comma ss))"
| "js_String (JObj kvs) =
     (if map_of kvs ''toString'' \<noteq> None
      then Inl (TypeError ''Cannot convert object to primitive value'')
      else Inr ''[object Object]'')"
| "join_elems [] = Inr []"
| "join_elems (x # xs) =
     (case (if x = JUndefined \<or> x = JNull then Inr [] else js_String x) of
        Inl e \<Rightarrow> Inl e
      | Inr s \<Rightarrow> (case join_elems xs of Inl e \<Rightarrow> Inl e | Inr ss \<Rightarrow> Inr (s # ss)))"

text \<open>
  A property read \<^verbatim>\<open>v.k\<close>. On \<^verbatim>\<open>null\<close> and \<^verbatim>\<open>undefined\<close> it throws. The names
  the handler reads are own properties of a parsed object or nothing: no built-in
  prototype defines them, except \<^verbatim>\<open>entries\<close> on an array, a function, whose only
  use is as the operand of \<^verbatim>\<open>for ... of\<close>, which rejects it as it rejects
  \<^verbatim>\<open>undefined\<close>.
\<close>

definition own :: "(string \<times> jsval) list \<Rightarrow> string \<Rightarrow> jsval" where
  "own kvs k = (case map_of kvs k of None \<Rightarrow> JUndefined | Some v \<Rightarrow> v)"

fun get_prop :: "jsval \<Rightarrow> string \<Rightarrow> fault + jsval" where
  "get_prop JUndefined k =
     Inl (TypeError (''Cannot read properties of undefined (reading '' @ [CHR 0x27] @ k @ [CHR 0x27] @ '')''))"
| "get_prop JNull k =
     Inl (TypeError (''Cannot read properties of null (reading '' @ [CHR 0x27] @ k @ [CHR 0x27] @ '')''))"
| "get_prop (JObj kvs) k = Inr (own kvs k)"
| "get_prop v k = Inr JUndefined"

text \<open>The optional read \<^verbatim>\<open>v?.k\<close>: \<^verbatim>\<open>undefined\<close> on \<^verbatim>\<open>null\<close> and \<^verbatim>\<open>undefined\<close>.\<close>

fun opt_prop :: "jsval \<Rightarrow> string \<Rightarrow> jsval" where
  "opt_prop (JObj kvs) k = own kvs k"
| "opt_prop v k = JUndefined"

subsection \<open>The host: what the source takes from Node\<close>

text \<open>
  The source reads two environment variables, starts a child process with
  \<^verbatim>\<open>child_process.spawn\<close>, and calls the built-ins \<^verbatim>\<open>JSON.parse\<close>,
  \<^verbatim>\<open>Date.prototype.toISOString\<close> and \<^verbatim>\<open>Number.prototype.toFixed\<close>. None of them
  is code of the repository: they are the fields of a host, a parameter of every
  definition that uses them.

  A child is seen through the four listeners of \<^verbatim>\<open>runCli\<close>: chunks of standard
  output and of standard error, then the first \<^verbatim>\<open>close\<close> (with the exit code, or
  \<^verbatim>\<open>null\<close> after a signal) or \<^verbatim>\<open>error\<close> (with the message of the operating
  system), whichever comes first: it settles the promise, and what follows is not seen.
  A run is what one child emits up to there. A child may also emit neither: its
  standard input is a pipe that the source never ends, and no timeout is set, so a
  child that waits (for its input, say) never closes.
\<close>

datatype proc_event = StdoutData string | StderrData string

datatype proc_end = Close "int option" | ProcError string

record proc_run =
  events :: "proc_event list"
  ending :: proc_end

text \<open>
  \<^verbatim>\<open>spawn\<close> throws at once on an argument it rejects; otherwise the child is started,
  and either has a run, or never emits \<^verbatim>\<open>close\<close> nor \<^verbatim>\<open>error\<close>.
\<close>

datatype spawn_outcome = SpawnThrows fault | Spawned proc_run | Unending

text \<open>
  A promise, seen from the one who awaits it: rejected with a fault, resolved with a
  value, or never settled.
\<close>

datatype 'a promise = Rejected fault | Resolved 'a | Pending

record host =
  MEMVID_DEFAULT_PATH :: "string option"
  MEMVID_CLI_PATH :: "string option"
  spawn :: "string \<Rightarrow> jsval list \<Rightarrow> spawn_outcome"
  JSON_parse :: "string \<Rightarrow> fault + jsval"
  seconds_toISOString :: "jsval \<Rightarrow> fault + string"
  kib_toFixed1 :: "jsval \<Rightarrow> fault + string"

text \<open>
  \<^verbatim>\<open>seconds_toISOString v\<close> is \<^verbatim>\<open>new Date(v * 1000).toISOString()\<close>, which throws a
  RangeError on an invalid date; \<^verbatim>\<open>kib_toFixed1 v\<close> is \<^verbatim>\<open>(v / 1024).toFixed(1)\<close>.
\<close>

text \<open>\<^verbatim>\<open>process.env.MEMVID_DEFAULT_PATH || ""\<close>\<close>

definition DEFAULT_MEMORY_PATH :: "host \<Rightarrow> string" where
  "DEFAULT_MEMORY_PATH H =
     (case MEMVID_DEFAULT_PATH H of None \<Rightarrow> '''' | Some s \<Rightarrow> if s \<noteq> [] then s else '''')"

text \<open>\<^verbatim>\<open>process.env.MEMVID_CLI_PATH || "memvid"\<close>\<close>

definition CLI_PATH :: "host \<Rightarrow> string" where
  "CLI_PATH H =
     (case MEMVID_CLI_PATH H of None \<Rightarrow> ''memvid'' | Some s \<Rightarrow> if s \<noteq> [] then s else ''memvid'')"

subsection \<open>runCli\<close>

record CliResult =
  success :: bool
  stdout :: string
  stderr :: string

text \<open>\<^verbatim>\<open>String.prototype.trim\<close>: white space and line terminators, at both ends.\<close>

definition is_space :: "char \<Rightarrow> bool" where
  "is_space c = (of_char c \<in> {9, 10, 11, 12, 13, 32, 160 :: nat})"

definition trim :: "string \<Rightarrow> string" where
  "trim s = rev (dropWhile is_space (rev (dropWhile is_space s)))"

text \<open>The two \<^verbatim>\<open>data\<close> listeners, on the pair of buffers \<^verbatim>\<open>(stdout, stderr)\<close>.\<close>

fun on_data :: "string \<times> string \<Rightarrow> proc_event \<Rightarrow> string \<times> string" where
  "on_data (out, err) (StdoutData d) = (out @ d, err)"
| "on_data (out, err) (StderrData d) = (out, err @ d)"

definition settle :: "proc_run \<Rightarrow> CliResult" where
  "settle r =
     (case ending r of
        Close code \<Rightarrow>
          (let (out, err) = foldl on_data ('''', '''') (events r)
           in \<lparr>success = (code = Some 0), stdout = trim out, stderr = trim err\<rparr>)
      | ProcError m \<Rightarrow> \<lparr>success = False, stdout = '''', stderr = m\<rparr>)"

text \<open>
  The promise of \<^verbatim>\<open>runCli\<close>: rejected when \<^verbatim>\<open>spawn\<close> throws inside the executor,
  resolved by the first \<^verbatim>\<open>close\<close> or \<^verbatim>\<open>error\<close>, and never settled when the child
  emits neither.
\<close>

definition runCli :: "host \<Rightarrow> jsval list \<Rightarrow> CliResult promise" where
  "runCli H args =
     (case spawn H (CLI_PATH H) args of
        SpawnThrows f \<Rightarrow> Rejected f
      | Spawned r \<Rightarrow> Resolved (settle r)
      | Unending \<Rightarrow> Pending)"

subsection \<open>resolvePath\<close>

definition no_path_message :: string where
  "no_path_message =
     ''No memory file path provided. Set MEMVID_DEFAULT_PATH or provide '' @ [CHR 0x27] @ ''path'' @ [CHR 0x27] @ '' parameter.''"

definition resolvePath :: "host \<Rightarrow> jsval \<Rightarrow> fault + jsval" where
  "resolvePath H inputPath =
     (if truthy inputPath then Inr inputPath
      else if DEFAULT_MEMORY_PATH H \<noteq> [] then Inr (JStr (DEFAULT_MEMORY_PATH H))
      else Inl (Error no_path_message))"

subsection \<open>TOOLS\<close>

text \<open>
  The static registry. The schema of a property is its \<^verbatim>\<open>type\<close>, the
  \<^verbatim>\<open>type\<close> of its \<^verbatim>\<open>items\<close> where it has any, and its \<^verbatim>\<open>description\<close>;
  \<^verbatim>\<open>required\<close> is absent from two of the schemas.
\<close>

record property_schema =
  prop_type :: string
  prop_items_type :: "string option"
  prop_description :: string

record input_schema =
  schema_type :: string
  properties :: "(string \<times> property_schema) list"
  required :: "string list option"

record tool =
  name :: string
  description :: string
  inputSchema :: input_schema

definition path_property :: "string \<times> property_schema" where
  "path_property =
     (''path'', \<lparr>prop_type = ''string'', prop_items_type = None,
        prop_description = ''Path to memory file (.mv2). Uses MEMVID_DEFAULT_PATH if not provided.''\<rparr>)"

definition TOOLS :: "tool list" where
  "TOOLS =
    [\<lparr>name = ''memory_remember'',
      description = ''Store knowledge in memory. Use this to save insights, solutions, or information for later recall. Content is indexed for full-text search.'',
      inputSchema = \<lparr>schema_type = ''object'',
        properties =
          [path_property,
           (''content'', \<lparr>prop_type = ''string'', prop_items_type = None,
              prop_description = ''The knowledge to store''\<rparr>),
           (''uri'', \<lparr>prop_type = ''string'', prop_items_type = None,
              prop_description = ''Hierarchical identifier (e.g., mv2://topics/rust, mv2://projects/satori)''\<rparr>),
           (''title'', \<lparr>prop_type = ''string'', prop_items_type = None,
              prop_description = ''Short title for the content''\<rparr>),
           (''tags'', \<lparr>prop_type = ''array'', prop_items_type = Some ''string'',
              prop_description = ''Tags for categorization''\<rparr>)],
        required = Some [''content'']\<rparr>\<rparr>,
     \<lparr>name = ''memory_recall'',
      description = ''Search memory for relevant knowledge. Returns matching content with snippets. Use scope to filter by URI prefix.'',
      inputSchema = \<lparr>schema_type = ''object'',
        properties =
          [path_property,
           (''query'', \<lparr>prop_type = ''string'', prop_items_type = None,
              prop_description = ''Search query''\<rparr>),
           (''scope'', \<lparr>prop_type = ''string'', prop_items_type = None,
              prop_description = ''URI prefix filter (e.g., mv2://topics/)''\<rparr>),
           (''limit'', \<lparr>prop_type = ''number'', prop_items_type = None,
              prop_description = ''Maximum results (default: 10)''\<rparr>)],
        required = Some [''query'']\<rparr>\<rparr>,
     \<lparr>name = ''memory_list'',
      description = ''Browse memory chronologically. Returns recent entries with previews. Use to see what knowledge is stored.'',
      inputSchema = \<lparr>schema_type = ''object'',
        properties =
          [path_property,
           (''limit'', \<lparr>prop_type = ''number'', prop_items_type = None,
              prop_description = ''Maximum entries (default: 20)''\<rparr>),
           (''since'', \<lparr>prop_type = ''number'', prop_items_type = None,
              prop_description = ''Unix timestamp - entries after this time''\<rparr>),
           (''until'', \<lparr>prop_type = ''number'', prop_items_type = None,
              prop_description = ''Unix timestamp - entries before this time''\<rparr>)],
        required = None\<rparr>\<rparr>,
     \<lparr>name = ''memory_stats'',
      description = ''Get statistics about the memory file. Shows frame count, size, and index status.'',
      inputSchema = \<lparr>schema_type = ''object'',
        properties = [path_property],
        required = None\<rparr>\<rparr>,
     \<lparr>name = ''memory_create'',
      description = ''Create a new memory file. Only needed if starting fresh - memory_remember auto-creates if file doesn'' @ [CHR 0x27] @ ''t exist.'',
      inputSchema = \<lparr>schema_type = ''object'',
        properties =
          [(''path'', \<lparr>prop_type = ''string'', prop_items_type = None,
              prop_description = ''Path to create the memory file (.mv2)''\<rparr>)],
        required = Some [''path'']\<rparr>\<rparr>]"

text \<open>The names listed in \<^verbatim>\<open>required\<close> (none where it is absent) and the declared keys.\<close>

definition required_names :: "tool \<Rightarrow> string list" where
  "required_names t = (case required (inputSchema t) of None \<Rightarrow> [] | Some rs \<Rightarrow> rs)"

definition property_keys :: "tool \<Rightarrow> string list" where
  "property_keys t = map fst (properties (inputSchema t))"

subsection \<open>The call handler\<close>

text \<open>A content block \<^verbatim>\<open>{type, text}\<close>.\<close>

record text_block =
  block_type :: string
  block_text :: string

record response =
  content :: "text_block list"

definition text_response :: "string \<Rightarrow> response" where
  "text_response t = \<lparr>content = [\<lparr>block_type = ''text'', block_text = t\<rparr>]\<rparr>"

definition nl :: char where
  "nl = CHR 0x0A"

text \<open>The elements of an array (read only behind \<^verbatim>\<open>Array.isArray\<close>).\<close>

fun elems :: "jsval \<Rightarrow> jsval list" where
  "elems (JArr xs) = xs"
| "elems v = []"

text \<open>\<^verbatim>\<open>for (const tag of args.tags) cliArgs.push("-t", tag)\<close>\<close>

fun push_tags :: "jsval list \<Rightarrow> jsval list \<Rightarrow> jsval list" where
  "push_tags cliArgs [] = cliArgs"
| "push_tags cliArgs (tag # tags) = push_tags (cliArgs @ [JStr ''-t'', tag]) tags"

text \<open>\<^verbatim>\<open>if (args?.k) cliArgs.push(flag, args.k)\<close>\<close>

definition push_flag :: "jsval list \<Rightarrow> jsval \<Rightarrow> string \<Rightarrow> string \<Rightarrow> jsval list" where
  "push_flag cliArgs args k flag =
     (if truthy (opt_prop args k) then cliArgs @ [JStr flag, opt_prop args k] else cliArgs)"

text \<open>\<^verbatim>\<open>if (args?.k) cliArgs.push(flag, String(args.k))\<close>\<close>

definition push_flag_String :: "jsval list \<Rightarrow> jsval \<Rightarrow> string \<Rightarrow> string \<Rightarrow> fault + jsval list" where
  "push_flag_String cliArgs args k flag =
     (if truthy (opt_prop args k)
      then bindF (js_String (opt_prop args k)) (\<lambda>s. Inr (cliArgs @ [JStr flag, JStr s]))
      else Inr cliArgs)"

text \<open>The argument vector of each tool, with the path already resolved.\<close>

definition remember_argv :: "jsval \<Rightarrow> jsval \<Rightarrow> jsval list" where
  "remember_argv memPath args =
     (let cliArgs = [JStr ''put'', memPath];
          cliArgs = push_flag cliArgs args ''content'' ''--content'';
          cliArgs = push_flag cliArgs args ''uri'' ''--uri'';
          cliArgs = push_flag cliArgs args ''title'' ''--title''
      in if truthy (opt_prop args ''tags'') \<and> isArray (opt_prop args ''tags'')
         then push_tags cliArgs (elems (opt_prop args ''tags''))
         else cliArgs)"

definition recall_argv :: "jsval \<Rightarrow> jsval \<Rightarrow> fault + jsval list" where
  "recall_argv memPath args =
     (let cliArgs = [JStr ''search'', memPath, opt_prop args ''query''];
          cliArgs = push_flag cliArgs args ''scope'' ''--scope''
      in push_flag_String cliArgs args ''limit'' ''--limit'')"

definition list_argv :: "jsval \<Rightarrow> jsval \<Rightarrow> fault + jsval list" where
  "list_argv memPath args =
     bindF (push_flag_String [JStr ''timeline'', memPath] args ''limit'' ''--limit'') (\<lambda>cliArgs.
     bindF (push_flag_String cliArgs args ''since'' ''--since'') (\<lambda>cliArgs.
     push_flag_String cliArgs args ''until'' ''--until''))"

text \<open>
  What \<^verbatim>\<open>for (const x of v)\<close> visits: the elements of an array, the characters of a
  string; any other parsed value is not iterable.
\<close>

fun iterate :: "string \<Rightarrow> jsval \<Rightarrow> fault + jsval list" where
  "iterate expr (JArr xs) = Inr xs"
| "iterate expr (JStr s) = Inr (map (\<lambda>c. JStr [c]) s)"
| "iterate expr v = Inl (TypeError (expr @ '' is not iterable''))"

text \<open>\<^verbatim>\<open>`Error: ${data.error || result.stderr}`\<close>, shared by the five branches.\<close>

definition error_text :: "CliResult \<Rightarrow> jsval \<Rightarrow> fault + string" where
  "error_text result data =
     bindF (get_prop data ''error'') (\<lambda>e.
     bindF (js_String (js_or e (JStr (stderr result)))) (\<lambda>s.
     Inr (''Error: '' @ s)))"

text \<open>\<^verbatim>\<open>`${v.k}`\<close>: the read, then the conversion.\<close>

definition prop_String :: "jsval \<Rightarrow> string \<Rightarrow> fault + string" where
  "prop_String v k = bindF (get_prop v k) js_String"

definition remember_render :: "CliResult \<Rightarrow> jsval \<Rightarrow> fault + response" where
  "remember_render result data =
     bindF (if success result
            then bindF (prop_String data ''frame_id'') (\<lambda>s. Inr (''Stored in frame '' @ s))
            else error_text result data) (\<lambda>t.
     Inr (text_response t))"

text \<open>The body of the loop over \<^verbatim>\<open>data.hits\<close>, on the text built so far.\<close>

definition hit_block :: "string \<Rightarrow> jsval \<Rightarrow> fault + string" where
  "hit_block txt hit =
     bindF (get_prop hit ''title'') (\<lambda>title.
     bindF (if truthy title then Inr title else get_prop hit ''uri'') (\<lambda>head.
     bindF (js_String head) (\<lambda>s1.
     bindF (prop_String hit ''frame_id'') (\<lambda>s2.
     bindF (prop_String hit ''snippet'') (\<lambda>s3.
     Inr (txt @ ''**'' @ s1 @ ''** (frame '' @ s2 @ '')'' @ [nl] @ s3 @ [nl, nl]))))))"

fun hits_loop :: "string \<Rightarrow> jsval list \<Rightarrow> fault + string" where
  "hits_loop txt [] = Inr txt"
| "hits_loop txt (hit # hits) =
     (case hit_block txt hit of Inl e \<Rightarrow> Inl e | Inr txt' \<Rightarrow> hits_loop txt' hits)"

definition recall_render :: "CliResult \<Rightarrow> jsval \<Rightarrow> fault + response" where
  "recall_render result data =
     (if \<not> success result
      then bindF (error_text result data) (\<lambda>t. Inr (text_response t))
      else
        bindF (prop_String data ''total_hits'') (\<lambda>s1.
        bindF (prop_String data ''query'') (\<lambda>s2.
        bindF (get_prop data ''hits'') (\<lambda>hits.
        bindF (iterate ''data.hits'' hits) (\<lambda>hs.
        bindF (hits_loop (''Found '' @ s1 @ '' results for '' @ [CHR 0x22] @ s2 @ [CHR 0x22] @ '':'' @ [nl, nl]) hs) (\<lambda>txt.
        Inr (text_response txt)))))))"

text \<open>
  \<^verbatim>\<open>entry.preview.slice(0, 100)\<close>: the first hundred characters of a string or
  elements of an array; no other parsed value has a \<^verbatim>\<open>slice\<close> to call.
\<close>

fun slice_0_100 :: "jsval \<Rightarrow> fault + jsval" where
  "slice_0_100 (JStr s) = Inr (JStr (take 100 s))"
| "slice_0_100 (JArr xs) = Inr (JArr (take 100 xs))"
| "slice_0_100 JUndefined =
     Inl (TypeError (''Cannot read properties of undefined (reading '' @ [CHR 0x27] @ ''slice'' @ [CHR 0x27] @ '')''))"
| "slice_0_100 JNull =
     Inl (TypeError (''Cannot read properties of null (reading '' @ [CHR 0x27] @ ''slice'' @ [CHR 0x27] @ '')''))"
| "slice_0_100 v = Inl (TypeError ''entry.preview.slice is not a function'')"

definition entry_block :: "host \<Rightarrow> string \<Rightarrow> jsval \<Rightarrow> fault + string" where
  "entry_block H txt entry =
     bindF (get_prop entry ''timestamp'') (\<lambda>ts.
     bindF (seconds_toISOString H ts) (\<lambda>date.
     bindF (get_prop entry ''uri'') (\<lambda>uri.
     bindF (if truthy uri then js_String uri
            else bindF (prop_String entry ''frame_id'') (\<lambda>s. Inr (''frame-'' @ s))) (\<lambda>s1.
     bindF (get_prop entry ''preview'') (\<lambda>preview.
     bindF (slice_0_100 preview) (\<lambda>cut.
     bindF (js_String cut) (\<lambda>s2.
     Inr (txt @ ''**'' @ s1 @ ''** ('' @ date @ '')'' @ [nl] @ s2 @ ''...'' @ [nl, nl]))))))))"

fun entries_loop :: "host \<Rightarrow> string \<Rightarrow> jsval list \<Rightarrow> fault + string" where
  "entries_loop H txt [] = Inr txt"
| "entries_loop H txt (entry # entries) =
     (case entry_block H txt entry of Inl e \<Rightarrow> Inl e | Inr txt' \<Rightarrow> entries_loop H txt' entries)"

definition list_render :: "host \<Rightarrow> CliResult \<Rightarrow> jsval \<Rightarrow> fault + response" where
  "list_render H result data =
     (if \<not> success result
      then bindF (error_text result data) (\<lambda>t. Inr (text_response t))
      else
        bindF (prop_String data ''total'') (\<lambda>s1.
        bindF (get_prop data ''entries'') (\<lambda>entries.
        bindF (iterate ''data.entries'' entries) (\<lambda>es.
        bindF (entries_loop H (''Memory contains '' @ s1 @ '' entries:'' @ [nl, nl]) es) (\<lambda>txt.
        Inr (text_response txt))))))"

definition enabled :: "jsval \<Rightarrow> string" where
  "enabled v = (if truthy v then ''enabled'' else ''disabled'')"

definition stats_render :: "host \<Rightarrow> CliResult \<Rightarrow> jsval \<Rightarrow> fault + response" where
  "stats_render H result data =
     (if \<not> success result
      then bindF (error_text result data) (\<lambda>t. Inr (text_response t))
      else
        bindF (prop_String data ''path'') (\<lambda>s1.
        bindF (prop_String data ''active_frame_count'') (\<lambda>s2.
        bindF (prop_String data ''frame_count'') (\<lambda>s3.
        bindF (get_prop data ''size_bytes'') (\<lambda>size.
        bindF (kib_toFixed1 H size) (\<lambda>s4.
        bindF (get_prop data ''has_lex_index'') (\<lambda>lex.
        bindF (get_prop data ''has_vec_index'') (\<lambda>vec.
        Inr (text_response
          (''Memory: '' @ s1 @ [nl] @
           ''Frames: '' @ s2 @ '' active / '' @ s3 @ '' total'' @ [nl] @
           ''Size: '' @ s4 @ '' KB'' @ [nl] @
           ''Full-text search: '' @ enabled lex @ [nl] @
           ''Vector search: '' @ enabled vec))))))))))"

definition create_render :: "CliResult \<Rightarrow> jsval \<Rightarrow> fault + response" where
  "create_render result data =
     bindF (if success result
            then bindF (prop_String data ''path'') (\<lambda>s. Inr (''Created memory file: '' @ s))
            else error_text result data) (\<lambda>t.
     Inr (text_response t))"

text \<open>
  \<^verbatim>\<open>const v = await p; ...\<close> inside an asynchronous function: while \<^verbatim>\<open>p\<close> is not
  settled the function does not go on; a rejection is thrown at the \<^verbatim>\<open>await\<close>; the
  rest runs on the value, and what it throws or returns is the outcome.
\<close>

definition await :: "'a promise \<Rightarrow> ('a \<Rightarrow> fault + 'b) \<Rightarrow> 'b promise" where
  "await p rest =
     (case p of
        Rejected f \<Rightarrow> Rejected f
      | Pending \<Rightarrow> Pending
      | Resolved v \<Rightarrow> (case rest v of Inl f \<Rightarrow> Rejected f | Inr r \<Rightarrow> Resolved r))"

text \<open>
  \<^verbatim>\<open>const result = await runCli(cliArgs); const data = JSON.parse(result.stdout);\<close>
  and the rendering that follows. Beside its outcome a call gives the list of the
  \<^verbatim>\<open>spawn\<close> calls it made, each with the command and the argument vector; none is made
  when the compilation of the vector throws.
\<close>

type_synonym spawn_calls = "(string \<times> jsval list) list"

definition call_cli ::
  "host \<Rightarrow> fault + jsval list \<Rightarrow> (CliResult \<Rightarrow> jsval \<Rightarrow> fault + response)
     \<Rightarrow> response promise \<times> spawn_calls" where
  "call_cli H compiled render =
     (case compiled of
        Inl e \<Rightarrow> (Rejected e, [])
      | Inr cliArgs \<Rightarrow>
          (await (runCli H cliArgs) (\<lambda>result.
           bindF (JSON_parse H (stdout result)) (\<lambda>data.
           render result data)),
           [(CLI_PATH H, cliArgs)]))"

text \<open>
  The \<^verbatim>\<open>switch (name)\<close> inside \<^verbatim>\<open>try\<close>: \<^verbatim>\<open>Rejected\<close> is what the block throws,
  \<^verbatim>\<open>Resolved\<close> what it returns, \<^verbatim>\<open>Pending\<close> a block that stays at its
  \<^verbatim>\<open>await\<close>.
\<close>

definition try_block :: "host \<Rightarrow> string \<Rightarrow> jsval \<Rightarrow> response promise \<times> spawn_calls" where
  "try_block H name' args =
     (if name' = ''memory_remember'' then
        call_cli H
          (bindF (resolvePath H (opt_prop args ''path'')) (\<lambda>memPath. Inr (remember_argv memPath args)))
          remember_render
      else if name' = ''memory_recall'' then
        call_cli H
          (bindF (resolvePath H (opt_prop args ''path'')) (\<lambda>memPath. recall_argv memPath args))
          recall_render
      else if name' = ''memory_list'' then
        call_cli H
          (bindF (resolvePath H (opt_prop args ''path'')) (\<lambda>memPath. list_argv memPath args))
          (list_render H)
      else if name' = ''memory_stats'' then
        call_cli H
          (bindF (resolvePath H (opt_prop args ''path'')) (\<lambda>memPath. Inr [JStr ''stats'', memPath]))
          (stats_render H)
      else if name' = ''memory_create'' then
        (if \<not> truthy (opt_prop args ''path'')
         then (Resolved (text_response ''Error: path is required''), [])
         else call_cli H (Inr [JStr ''create'', opt_prop args ''path'']) create_render)
      else (Resolved (text_response (''Unknown tool: '' @ name')), []))"

text \<open>
  The handler: the \<^verbatim>\<open>try\<close> block, and the \<^verbatim>\<open>catch\<close> that turns what it throws
  into a response (every fault is an instance of \<^verbatim>\<open>Error\<close>, so its
  \<^verbatim>\<open>message\<close> is taken). The outcome is the promise the caller gets:
  \<^verbatim>\<open>Rejected\<close> would be a fault that reaches the caller, \<^verbatim>\<open>Pending\<close> is a call
  that never answers.
\<close>

definition handler :: "host \<Rightarrow> string \<Rightarrow> jsval \<Rightarrow> response promise \<times> spawn_calls" where
  "handler H name' args =
     (case try_block H name' args of
        (Rejected error, calls) \<Rightarrow> (Resolved (text_response (''Error: '' @ message error)), calls)
      | (Resolved r, calls) \<Rightarrow> (Resolved r, calls)
      | (Pending, calls) \<Rightarrow> (Pending, calls))"

subsection \<open>A reference host\<close>

text \<open>
  A concrete host, to run the handler on concrete calls. Its \<^verbatim>\<open>JSON.parse\<close> reads
  JSON whose numbers are integer literals and whose strings use the two-character
  escapes only (anything else is refused); the message of its SyntaxError is that of
  V8 for an empty input, and a fixed one otherwise. Its number conversion is exact on
  numbers, \<^verbatim>\<open>null\<close>, booleans, \<^verbatim>\<open>undefined\<close>, objects and strings of decimal
  digits, and takes any other string as \<^verbatim>\<open>NaN\<close>.
\<close>

definition is_json_ws :: "char \<Rightarrow> bool" where
  "is_json_ws c = (of_char c \<in> {9, 10, 13, 32 :: nat})"

definition is_digit :: "char \<Rightarrow> bool" where
  "is_digit c = (48 \<le> (of_char c :: nat) \<and> (of_char c :: nat) \<le> 57)"

definition digits_value :: "string \<Rightarrow> nat" where
  "digits_value ds = foldl (\<lambda>a c. 10 * a + (of_char c - 48)) 0 ds"

definition unescape :: "char \<Rightarrow> char option" where
  "unescape e =
     (if e = CHR 0x22 \<or> e = CHR 0x5C \<or> e = CHR ''/'' then Some e
      else if e = CHR ''b'' then Some (CHR 0x08)
      else if e = CHR ''f'' then Some (CHR 0x0C)
      else if e = CHR ''n'' then Some (CHR 0x0A)
      else if e = CHR ''r'' then Some (CHR 0x0D)
      else if e = CHR ''t'' then Some (CHR 0x09)
      else None)"

text \<open>The characters of a string literal after its opening quote, and what follows it.\<close>

fun string_body :: "string \<Rightarrow> (string \<times> string) option" where
  "string_body [] = None"
| "string_body (c # cs) =
     (if c = CHR 0x22 then Some ([], cs)
      else if c = CHR 0x5C then
        (case cs of
           [] \<Rightarrow> None
         | e # cs' \<Rightarrow>
             (case unescape e of
                None \<Rightarrow> None
              | Some ch \<Rightarrow>
                  (case string_body cs' of None \<Rightarrow> None | Some (s, r) \<Rightarrow> Some (ch # s, r))))
      else if (of_char c :: nat) < 32 then None
      else (case string_body cs of None \<Rightarrow> None | Some (s, r) \<Rightarrow> Some (c # s, r)))"

definition number_literal :: "string \<Rightarrow> (jsval \<times> string) option" where
  "number_literal cs =
     (let neg = (cs \<noteq> [] \<and> hd cs = CHR ''-'');
          r = (if neg then tl cs else cs);
          ds = takeWhile is_digit r;
          rest = dropWhile is_digit r
      in if ds = [] \<or> (1 < length ds \<and> hd ds = CHR ''0'') then None
         else if rest \<noteq> [] \<and> hd rest \<in> {CHR ''.'', CHR ''e'', CHR ''E''} then None
         else Some (JNum (if neg then - int (digits_value ds) else int (digits_value ds)), rest))"

text \<open>A later member of an object replaces an earlier one of the same key.\<close>

definition add_member :: "string \<Rightarrow> jsval \<Rightarrow> (string \<times> jsval) list \<Rightarrow> (string \<times> jsval) list" where
  "add_member k v kvs = (if k \<in> set (map fst kvs) then kvs else (k, v) # kvs)"

fun parse_value :: "nat \<Rightarrow> string \<Rightarrow> (jsval \<times> string) option"
  and parse_elements :: "nat \<Rightarrow> string \<Rightarrow> (jsval list \<times> string) option"
  and parse_members :: "nat \<Rightarrow> string \<Rightarrow> ((string \<times> jsval) list \<times> string) option" where
  "parse_value 0 cs = None"
| "parse_value (Suc n) cs =
     (case dropWhile is_json_ws cs of
        [] \<Rightarrow> None
      | c # r \<Rightarrow>
          if c = CHR ''{'' then
            (case dropWhile is_json_ws r of
               [] \<Rightarrow> None
             | c' # r' \<Rightarrow>
                 if c' = CHR ''}'' then Some (JObj [], r')
                 else (case parse_members n r of None \<Rightarrow> None | Some (kvs, r'') \<Rightarrow> Some (JObj kvs, r'')))
          else if c = CHR ''['' then
            (case dropWhile is_json_ws r of
               [] \<Rightarrow> None
             | c' # r' \<Rightarrow>
                 if c' = CHR '']'' then Some (JArr [], r')
                 else (case parse_elements n r of None \<Rightarrow> None | Some (vs, r'') \<Rightarrow> Some (JArr vs, r'')))
          else if c = CHR 0x22 then
            (case string_body r of None \<Rightarrow> None | Some (s, r') \<Rightarrow> Some (JStr s, r'))
          else if take 4 (c # r) = ''true'' then Some (JBool True, drop 4 (c # r))
          else if take 5 (c # r) = ''false'' then Some (JBool False, drop 5 (c # r))
          else if take 4 (c # r) = ''null'' then Some (JNull, drop 4 (c # r))
          else number_literal (c # r))"
| "parse_elements 0 cs = None"
| "parse_elements (Suc n) cs =
     (case parse_value n cs of
        None \<Rightarrow> None
      | Some (v, r) \<Rightarrow>
          (case dropWhile is_json_ws r of
             [] \<Rightarrow> None
           | c # r' \<Rightarrow>
               if c = CHR '','' then
                 (case parse_elements n r' of None \<Rightarrow> None | Some (vs, r'') \<Rightarrow> Some (v # vs, r''))
               else if c = CHR '']'' then Some ([v], r')
               else None))"
| "parse_members 0 cs = None"
| "parse_members (Suc n) cs =
     (case dropWhile is_json_ws cs of
        [] \<Rightarrow> None
      | q # r \<Rightarrow>
          if q \<noteq> CHR 0x22 then None
          else
            (case string_body r of
               None \<Rightarrow> None
             | Some (k, r1) \<Rightarrow>
                 (case dropWhile is_json_ws r1 of
                    [] \<Rightarrow> None
                  | c # r2 \<Rightarrow>
                      if c \<noteq> CHR '':'' then None
                      else
                        (case parse_value n r2 of
                           None \<Rightarrow> None
                         | Some (v, r3) \<Rightarrow>
                             (case dropWhile is_json_ws r3 of
                                [] \<Rightarrow> None
                              | c' # r4 \<Rightarrow>
                                  if c' = CHR '','' then
                                    (case parse_members n r4 of
                                       None \<Rightarrow> None
                                     | Some (kvs, r5) \<Rightarrow> Some (add_member k v kvs, r5))
                                  else if c' = CHR ''}'' then Some ([(k, v)], r4)
                                  else None)))))"

definition ref_JSON_parse :: "string \<Rightarrow> fault + jsval" where
  "ref_JSON_parse s =
     (case parse_value (Suc (length s)) s of
        None \<Rightarrow>
          Inl (SyntaxError
            (if dropWhile is_json_ws s = [] then ''Unexpected end of JSON input''
             else ''Unexpected token in JSON''))
      | Some (v, r) \<Rightarrow>
          if dropWhile is_json_ws r = [] then Inr v
          else Inl (SyntaxError ''Unexpected non-whitespace character after JSON''))"

text \<open>\<^verbatim>\<open>ToNumber\<close>, with \<^verbatim>\<open>None\<close> for \<^verbatim>\<open>NaN\<close>.\<close>

definition ref_ToNumber :: "jsval \<Rightarrow> fault + int option" where
  "ref_ToNumber v =
     (case v of
        JUndefined \<Rightarrow> Inr None
      | JNull \<Rightarrow> Inr (Some 0)
      | JBool b \<Rightarrow> Inr (Some (if b then 1 else 0))
      | JNum n \<Rightarrow> Inr (Some n)
      | _ \<Rightarrow>
          bindF (js_String v) (\<lambda>s.
            let t = trim s in
            if t = [] then Inr (Some 0)
            else if list_all is_digit t then Inr (Some (int (digits_value t)))
            else Inr None))"

definition pad :: "nat \<Rightarrow> nat \<Rightarrow> string" where
  "pad w n = replicate (w - length (digits n)) CHR ''0'' @ digits n"

text \<open>The civil date of a day number counted from 1970-01-01.\<close>

definition civil_from_days :: "int \<Rightarrow> int \<times> nat \<times> nat" where
  "civil_from_days z =
     (let z' = z + 719468;
          era = z' div 146097;
          doe = z' mod 146097;
          yoe = (doe - doe div 1460 + doe div 36524 - doe div 146096) div 365;
          doy = doe - (365 * yoe + yoe div 4 - yoe div 100);
          mp = (5 * doy + 2) div 153;
          d = doy - (153 * mp + 2) div 5 + 1;
          m = (if mp < 10 then mp + 3 else mp - 9);
          y = yoe + era * 400 + (if m \<le> 2 then 1 else 0)
      in (y, nat m, nat d))"

definition ref_seconds_toISOString :: "jsval \<Rightarrow> fault + string" where
  "ref_seconds_toISOString v =
     bindF (ref_ToNumber v) (\<lambda>n.
       case n of
         None \<Rightarrow> Inl (RangeError ''Invalid time value'')
       | Some secs \<Rightarrow>
           if 8640000000000 < \<bar>secs\<bar> then Inl (RangeError ''Invalid time value'')
           else
             let (y, m, d) = civil_from_days (secs div 86400);
                 t = nat (secs mod 86400);
                 year = (if 0 \<le> y \<and> y \<le> 9999 then pad 4 (nat y)
                         else (if y < 0 then ''-'' else ''+'') @ pad 6 (nat \<bar>y\<bar>))
             in Inr (year @ ''-'' @ pad 2 m @ ''-'' @ pad 2 d @ ''T'' @
                     pad 2 (t div 3600) @ '':'' @ pad 2 (t div 60 mod 60) @ '':'' @
                     pad 2 (t mod 60) @ ''.000Z''))"

definition ref_kib_toFixed1 :: "jsval \<Rightarrow> fault + string" where
  "ref_kib_toFixed1 v =
     bindF (ref_ToNumber v) (\<lambda>n.
       case n of
         None \<Rightarrow> Inr ''NaN''
       | Some b \<Rightarrow>
           let q = (nat \<bar>b\<bar> * 10 + 512) div 1024
           in Inr ((if b < 0 then ''-'' else []) @ digits (q div 10) @ ''.'' @ digits (q mod 10)))"

definition ref_host :: "string option \<Rightarrow> (string \<Rightarrow> jsval list \<Rightarrow> spawn_outcome) \<Rightarrow> host" where
  "ref_host default_path sp =
     \<lparr>MEMVID_DEFAULT_PATH = default_path,
      MEMVID_CLI_PATH = None,
      spawn = sp,
      JSON_parse = ref_JSON_parse,
      seconds_toISOString = ref_seconds_toISOString,
      kib_toFixed1 = ref_kib_toFixed1\<rparr>"

text \<open>
  A child that writes one chunk on standard output, one on standard error, and exits
  with the given code.
\<close>

definition emits :: "string \<Rightarrow> string \<Rightarrow> int \<Rightarrow> string \<Rightarrow> jsval list \<Rightarrow> spawn_outcome" where
  "emits out err code cmd argv =
     Spawned \<lparr>events = [StdoutData out, StderrData err], ending = Close (Some code)\<rparr>"

text \<open>A program that is not there: the child emits \<^verbatim>\<open>error\<close> and nothing else.\<close>

definition not_found :: "string \<Rightarrow> jsval list \<Rightarrow> spawn_outcome" where
  "not_found cmd argv = Spawned \<lparr>events = [], ending = ProcError (''spawn '' @ cmd @ '' ENOENT'')\<rparr>"

text \<open>
  A program that waits on its standard input, as \<^verbatim>\<open>memvid put\<close> does when it gets
  no \<^verbatim>\<open>--content\<close>: nothing ends that input, and the child never closes.
\<close>

definition waits_for_input :: "string \<Rightarrow> jsval list \<Rightarrow> spawn_outcome" where
  "waits_for_input cmd argv = Unending"

text \<open>A call of \<^verbatim>\<open>spawn\<close> that throws.\<close>

definition rejects :: "fault \<Rightarrow> string \<Rightarrow> jsval list \<Rightarrow> spawn_outcome" where
  "rejects f cmd argv = SpawnThrows f"

subsection \<open>Words of the specification about an argument bag\<close>

text \<open>An argument is present in the bag when the bag has it as a key.\<close>

fun present :: "jsval \<Rightarrow> string \<Rightarrow> bool" where
  "present (JObj kvs) k = (map_of kvs k \<noteq> None)"
| "present v k = False"

text \<open>The same bag with one argument absent.\<close>

fun without :: "string \<Rightarrow> jsval \<Rightarrow> jsval" where
  "without k (JObj kvs) = JObj (filter (\<lambda>kv. fst kv \<noteq> k) kvs)"
| "without k v = v"

section \<open>Properties\<close>

subsection \<open>Path resolution\<close>

lemma no_path_message_names_variable:
  "sublist ''MEMVID_DEFAULT_PATH'' no_path_message"
proof -
  have "no_path_message =
      ''No memory file path provided. Set '' @ ''MEMVID_DEFAULT_PATH'' @
      ('' or provide '' @ [CHR 0x27] @ ''path'' @ [CHR 0x27] @ '' parameter.'')"
    by (simp add: no_path_message_def)
  then show ?thesis
    by (metis sublist_appendI)
qed

text \<open>
  C2. An explicit non-empty string is returned unchanged, whatever the default; without
  an explicit path the configured default is returned when the environment sets one;
  with neither (the explicit path absent or empty, the variable unset or empty) the
  call throws an error whose message names the variable to set,
  \<^verbatim>\<open>MEMVID_DEFAULT_PATH\<close>.
\<close>

theorem resolvePath_explicit_default_error:
  "(s \<noteq> [] \<longrightarrow> resolvePath H (JStr s) = Inr (JStr s)) \<and>
   (MEMVID_DEFAULT_PATH H = Some d \<and> d \<noteq> [] \<longrightarrow> resolvePath H JUndefined = Inr (JStr d)) \<and>
   ((MEMVID_DEFAULT_PATH H = None \<or> MEMVID_DEFAULT_PATH H = Some []) \<and>
    (e = JUndefined \<or> e = JStr []) \<longrightarrow>
      resolvePath H e = Inl (Error no_path_message) \<and>
      sublist ''MEMVID_DEFAULT_PATH'' (message (Error no_path_message)))"
  using no_path_message_names_variable
  by (auto simp: resolvePath_def DEFAULT_MEMORY_PATH_def split: option.splits if_splits)

theorem resolvePath_explicit_default_error_witness:
  "resolvePath (ref_host (Some ''/default/path.mv2'') not_found) (JStr ''/custom/path.mv2'')
     = Inr (JStr ''/custom/path.mv2'') \<and>
   resolvePath (ref_host (Some ''/default/path.mv2'') not_found) JUndefined
     = Inr (JStr ''/default/path.mv2'') \<and>
   resolvePath (ref_host None not_found) JUndefined = Inl (Error no_path_message) \<and>
   sublist ''MEMVID_DEFAULT_PATH'' (message (Error no_path_message))"
  using
    resolvePath_explicit_default_error
      [of "''/custom/path.mv2''" "ref_host (Some ''/default/path.mv2'') not_found"
          "''/default/path.mv2''" JUndefined]
    resolvePath_explicit_default_error
      [of "''x''" "ref_host None not_found" "''x''" JUndefined]
  by (simp add: ref_host_def)

subsection \<open>The registry\<close>

text \<open>
  C4. The registry holds exactly five tools, named memory_remember, memory_recall,
  memory_list, memory_stats and memory_create, no name twice, and in every tool each
  name listed as required is a key of the declared properties.
\<close>

theorem TOOLS_five_unique_required_declared:
  "map name TOOLS =
     [''memory_remember'', ''memory_recall'', ''memory_list'', ''memory_stats'', ''memory_create''] \<and>
   length TOOLS = 5 \<and>
   distinct (map name TOOLS) \<and>
   list_all (\<lambda>t. set (required_names t) \<subseteq> set (property_keys t)) TOOLS"
  by (simp add: TOOLS_def required_names_def property_keys_def path_property_def)

subsection \<open>Argument vectors\<close>

lemma push_tags_append:
  "push_tags cliArgs tags = cliArgs @ concat (map (\<lambda>tag. [JStr ''-t'', tag]) tags)"
  by (induction tags arbitrary: cliArgs) simp_all

lemma remember_argv_segments:
  "remember_argv memPath args =
     [JStr ''put'', memPath] @
     push_flag [] args ''content'' ''--content'' @
     push_flag [] args ''uri'' ''--uri'' @
     push_flag [] args ''title'' ''--title'' @
     (if isArray (opt_prop args ''tags'')
      then concat (map (\<lambda>tag. [JStr ''-t'', tag]) (elems (opt_prop args ''tags''))) else [])"
proof -
  have arr: "isArray v \<Longrightarrow> truthy v" for v
    by (cases v) simp_all
  show ?thesis
    unfolding remember_argv_def Let_def push_tags_append
    using arr [of "opt_prop args ''tags''"]
    by (simp add: push_flag_def)
qed

lemma handler_remember_calls:
  assumes "resolvePath H (opt_prop args ''path'') = Inr memPath"
  shows "snd (handler H ''memory_remember'' args) = [(CLI_PATH H, remember_argv memPath args)]"
  using assms
  by (simp add: handler_def try_block_def call_cli_def bindF_def
      split: sum.splits prod.splits promise.splits)

text \<open>
  C3. With the path resolved, memory_remember starts the program on \<^verbatim>\<open>put\<close>, the
  path, the flags of content, uri and title, and then, for every list of strings given
  as tags, one pair \<^verbatim>\<open>-t tag\<close> per element, in the order of the list, repeated
  elements included. For the bag \<^verbatim>\<open>{content: "x", tags: ["a","b"]}\<close> and the path
  \<^verbatim>\<open>/m.mv2\<close> the vector is \<^verbatim>\<open>put /m.mv2 --content x -t a -t b\<close>.
\<close>

theorem remember_argv_one_flag_pair_per_tag:
  assumes "opt_prop args ''tags'' = JArr (map JStr tags)"
    and "resolvePath H (opt_prop args ''path'') = Inr memPath"
  shows "snd (handler H ''memory_remember'' args) =
           [(CLI_PATH H,
             [JStr ''put'', memPath] @
             push_flag [] args ''content'' ''--content'' @
             push_flag [] args ''uri'' ''--uri'' @
             push_flag [] args ''title'' ''--title'' @
             concat (map (\<lambda>tag. [JStr ''-t'', JStr tag]) tags))] \<and>
         remember_argv (JStr ''/m.mv2'')
             (JObj [(''content'', JStr ''x''), (''tags'', JArr [JStr ''a'', JStr ''b''])]) =
           [JStr ''put'', JStr ''/m.mv2'', JStr ''--content'', JStr ''x'',
            JStr ''-t'', JStr ''a'', JStr ''-t'', JStr ''b'']"
proof -
  have "remember_argv memPath args =
          [JStr ''put'', memPath] @
          push_flag [] args ''content'' ''--content'' @
          push_flag [] args ''uri'' ''--uri'' @
          push_flag [] args ''title'' ''--title'' @
          concat (map (\<lambda>tag. [JStr ''-t'', JStr tag]) tags)"
    by (simp add: remember_argv_segments assms(1) comp_def)
  moreover have "remember_argv (JStr ''/m.mv2'')
             (JObj [(''content'', JStr ''x''), (''tags'', JArr [JStr ''a'', JStr ''b''])]) =
           [JStr ''put'', JStr ''/m.mv2'', JStr ''--content'', JStr ''x'',
            JStr ''-t'', JStr ''a'', JStr ''-t'', JStr ''b'']"
    by (simp add: remember_argv_segments push_flag_def own_def)
  ultimately show ?thesis
    using handler_remember_calls [OF assms(2)] by simp
qed

theorem remember_argv_one_flag_pair_per_tag_witness:
  "snd (handler (ref_host (Some ''/m.mv2'') not_found) ''memory_remember''
          (JObj [(''content'', JStr ''x''), (''tags'', JArr [JStr ''a'', JStr ''b'', JStr ''a''])])) =
     [(''memvid'',
       [JStr ''put'', JStr ''/m.mv2'', JStr ''--content'', JStr ''x'',
        JStr ''-t'', JStr ''a'', JStr ''-t'', JStr ''b'', JStr ''-t'', JStr ''a''])]"
proof -
  let ?H = "ref_host (Some ''/m.mv2'') not_found"
  let ?args = "JObj [(''content'', JStr ''x''), (''tags'', JArr [JStr ''a'', JStr ''b'', JStr ''a''])]"
  have tags: "opt_prop ?args ''tags'' = JArr (map JStr [''a'', ''b'', ''a''])"
    by (simp add: own_def)
  have path: "resolvePath ?H (opt_prop ?args ''path'') = Inr (JStr ''/m.mv2'')"
    by (simp add: resolvePath_def DEFAULT_MEMORY_PATH_def ref_host_def own_def)
  show ?thesis
    using remember_argv_one_flag_pair_per_tag [OF tags path]
    by (simp add: push_flag_def own_def CLI_PATH_def ref_host_def)
qed

lemma map_of_without:
  "map_of (filter (\<lambda>kv. fst kv \<noteq> k) kvs) k' = (if k' = k then None else map_of kvs k')"
  by (induction kvs) auto

lemma opt_prop_without:
  "opt_prop (without k args) k' = (if k' = k then JUndefined else opt_prop args k')"
  by (cases args) (simp_all add: own_def map_of_without)

lemma push_flag_without:
  "k' \<noteq> k \<Longrightarrow> push_flag acc (without k args) k' flag = push_flag acc args k' flag"
  by (simp add: push_flag_def opt_prop_without)


text \<open>
  C10. When the bag of memory_remember has a \<^verbatim>\<open>tags\<close> whose value is not an array,
  the vector is the one compiled from the same bag without \<^verbatim>\<open>tags\<close>: it ends after
  the flags of content, uri and title, holds no \<^verbatim>\<open>-t\<close> (unless the path or one of
  those three values is itself that string), and the program is started on it, no error
  being thrown for the field.
\<close>

theorem remember_argv_ignores_non_array_tags:
  assumes "\<not> isArray (opt_prop args ''tags'')"
  shows "remember_argv memPath args = remember_argv memPath (without ''tags'' args) \<and>
         remember_argv memPath args =
           [JStr ''put'', memPath] @
           push_flag [] args ''content'' ''--content'' @
           push_flag [] args ''uri'' ''--uri'' @
           push_flag [] args ''title'' ''--title'' \<and>
         (JStr ''-t'' \<notin> {memPath, opt_prop args ''content'', opt_prop args ''uri'',
                          opt_prop args ''title''} \<longrightarrow>
            JStr ''-t'' \<notin> set (remember_argv memPath args)) \<and>
         (resolvePath H (opt_prop args ''path'') = Inr memPath \<longrightarrow>
            snd (handler H ''memory_remember'' args) =
              [(CLI_PATH H, remember_argv memPath (without ''tags'' args))])"
proof -
  have seg: "remember_argv memPath args =
           [JStr ''put'', memPath] @
           push_flag [] args ''content'' ''--content'' @
           push_flag [] args ''uri'' ''--uri'' @
           push_flag [] args ''title'' ''--title''"
    using assms by (simp add: remember_argv_segments)
  have same: "remember_argv memPath (without ''tags'' args) = remember_argv memPath args"
    unfolding seg
    by (simp add: remember_argv_segments opt_prop_without push_flag_without)
  have none: "JStr ''-t'' \<notin> set (remember_argv memPath args)"
    if "JStr ''-t'' \<notin> {memPath, opt_prop args ''content'', opt_prop args ''uri'',
                          opt_prop args ''title''}"
    using that unfolding seg by (auto simp: push_flag_def split: if_splits)
  show ?thesis
    using seg same none handler_remember_calls [of H args memPath] by simp
qed

theorem remember_argv_ignores_non_array_tags_witness:
  "remember_argv (JStr ''/m.mv2'') (JObj [(''content'', JStr ''x''), (''tags'', JStr ''a'')]) =
     remember_argv (JStr ''/m.mv2'') (JObj [(''content'', JStr ''x'')]) \<and>
   remember_argv (JStr ''/m.mv2'') (JObj [(''content'', JStr ''x''), (''tags'', JStr ''a'')]) =
     [JStr ''put'', JStr ''/m.mv2'', JStr ''--content'', JStr ''x''] \<and>
   snd (handler (ref_host None not_found) ''memory_remember''
          (JObj [(''path'', JStr ''/m.mv2''), (''content'', JStr ''x''), (''tags'', JNum 7)])) =
     [(''memvid'', [JStr ''put'', JStr ''/m.mv2'', JStr ''--content'', JStr ''x''])]"
proof -
  let ?a = "JObj [(''content'', JStr ''x''), (''tags'', JStr ''a'')]"
  let ?b = "JObj [(''path'', JStr ''/m.mv2''), (''content'', JStr ''x''), (''tags'', JNum 7)]"
  let ?H = "ref_host None not_found"
  have a: "\<not> isArray (opt_prop ?a ''tags'')" and b: "\<not> isArray (opt_prop ?b ''tags'')"
    by (simp_all add: own_def)
  have path: "resolvePath ?H (opt_prop ?b ''path'') = Inr (JStr ''/m.mv2'')"
    by (simp add: resolvePath_def own_def)
  show ?thesis
    using remember_argv_ignores_non_array_tags [OF a, of "JStr ''/m.mv2''" ?H]
      remember_argv_ignores_non_array_tags [OF b, of "JStr ''/m.mv2''" ?H] path
    by (simp add: push_flag_def own_def CLI_PATH_def ref_host_def)
      (simp add: remember_argv_segments push_flag_def own_def)
qed

lemma truthy_present: "truthy (opt_prop args k) \<Longrightarrow> present args k"
  by (cases args) (auto simp: own_def split: option.splits)

lemma push_flag_String_segments:
  assumes "js_String (opt_prop args k) = Inr s"
  shows "push_flag_String cliArgs args k flag =
           Inr (cliArgs @ (if truthy (opt_prop args k) then [JStr flag, JStr s] else []))"
  using assms by (simp add: push_flag_String_def bindF_def)

text \<open>
  C9 (as amended). The pair of a flag and its value is added exactly when the argument is
  truthy, which is more than present: for memory_recall \<^verbatim>\<open>--scope\<close> with the scope,
  then \<^verbatim>\<open>--limit\<close> with \<^verbatim>\<open>String(limit)\<close>; for memory_list \<^verbatim>\<open>--limit\<close>,
  \<^verbatim>\<open>--since\<close> and \<^verbatim>\<open>--until\<close>, each with the argument as a string. A truthy
  argument is present in the bag; a present one that is 0, empty, false or null adds
  nothing.
\<close>

theorem limit_flags_iff_truthy:
  assumes "js_String (opt_prop args ''limit'') = Inr l"
    and "js_String (opt_prop args ''since'') = Inr s"
    and "js_String (opt_prop args ''until'') = Inr u"
  shows "recall_argv memPath args =
           Inr ([JStr ''search'', memPath, opt_prop args ''query''] @
                (if truthy (opt_prop args ''scope'')
                 then [JStr ''--scope'', opt_prop args ''scope''] else []) @
                (if truthy (opt_prop args ''limit'') then [JStr ''--limit'', JStr l] else [])) \<and>
         list_argv memPath args =
           Inr ([JStr ''timeline'', memPath] @
                (if truthy (opt_prop args ''limit'') then [JStr ''--limit'', JStr l] else []) @
                (if truthy (opt_prop args ''since'') then [JStr ''--since'', JStr s] else []) @
                (if truthy (opt_prop args ''until'') then [JStr ''--until'', JStr u] else [])) \<and>
         (truthy (opt_prop args k) \<longrightarrow> present args k)"
proof -
  have "recall_argv memPath args =
           Inr ([JStr ''search'', memPath, opt_prop args ''query''] @
                (if truthy (opt_prop args ''scope'')
                 then [JStr ''--scope'', opt_prop args ''scope''] else []) @
                (if truthy (opt_prop args ''limit'') then [JStr ''--limit'', JStr l] else []))"
    by (simp add: recall_argv_def push_flag_def push_flag_String_segments [OF assms(1)])
  moreover have "list_argv memPath args =
           Inr ([JStr ''timeline'', memPath] @
                (if truthy (opt_prop args ''limit'') then [JStr ''--limit'', JStr l] else []) @
                (if truthy (opt_prop args ''since'') then [JStr ''--since'', JStr s] else []) @
                (if truthy (opt_prop args ''until'') then [JStr ''--until'', JStr u] else []))"
    by (simp add: list_argv_def bindF_def push_flag_String_segments [OF assms(1)]
        push_flag_String_segments [OF assms(2)] push_flag_String_segments [OF assms(3)])
  ultimately show ?thesis
    using truthy_present by blast
qed

theorem limit_flags_iff_truthy_witness:
  "recall_argv (JStr ''/m.mv2'')
     (JObj [(''query'', JStr ''q''), (''scope'', JStr ''mv2://t/''), (''limit'', JNum 5),
            (''since'', JNum 0)]) =
     Inr [JStr ''search'', JStr ''/m.mv2'', JStr ''q'', JStr ''--scope'', JStr ''mv2://t/'',
          JStr ''--limit'', JStr ''5''] \<and>
   list_argv (JStr ''/m.mv2'')
     (JObj [(''query'', JStr ''q''), (''scope'', JStr ''mv2://t/''), (''limit'', JNum 5),
            (''since'', JNum 0)]) =
     Inr [JStr ''timeline'', JStr ''/m.mv2'', JStr ''--limit'', JStr ''5''] \<and>
   present
     (JObj [(''query'', JStr ''q''), (''scope'', JStr ''mv2://t/''), (''limit'', JNum 5),
            (''since'', JNum 0)]) ''limit''"
proof -
  let ?args = "JObj [(''query'', JStr ''q''), (''scope'', JStr ''mv2://t/''), (''limit'', JNum 5),
            (''since'', JNum 0)]"
  have "js_String (JNum 5) = Inr ''5''" and "js_String (JNum 0) = Inr ''0''"
    by code_simp+
  then have l: "js_String (opt_prop ?args ''limit'') = Inr ''5''"
    and s: "js_String (opt_prop ?args ''since'') = Inr ''0''"
    and u: "js_String (opt_prop ?args ''until'') = Inr ''undefined''"
    by (simp_all add: own_def)
  show ?thesis
    using limit_flags_iff_truthy [OF l s u, of "JStr ''/m.mv2''" "''limit''"]
    by (simp add: own_def)
qed

text \<open>
  C9 as stated fails: \<^verbatim>\<open>limit: 0\<close> is present in the bag and no \<^verbatim>\<open>--limit\<close> is
  passed, by memory_list and by memory_recall.
\<close>

theorem limit_zero_present_not_forwarded:
  "present (JObj [(''path'', JStr ''/m.mv2''), (''limit'', JNum 0)]) ''limit'' \<and>
   list_argv (JStr ''/m.mv2'') (JObj [(''path'', JStr ''/m.mv2''), (''limit'', JNum 0)]) =
     Inr [JStr ''timeline'', JStr ''/m.mv2''] \<and>
   snd (handler (ref_host None not_found) ''memory_list''
          (JObj [(''path'', JStr ''/m.mv2''), (''limit'', JNum 0)])) =
     [(''memvid'', [JStr ''timeline'', JStr ''/m.mv2''])] \<and>
   present (JObj [(''path'', JStr ''/m.mv2''), (''query'', JStr ''q''), (''limit'', JNum 0)]) ''limit'' \<and>
   snd (handler (ref_host None not_found) ''memory_recall''
          (JObj [(''path'', JStr ''/m.mv2''), (''query'', JStr ''q''), (''limit'', JNum 0)])) =
     [(''memvid'', [JStr ''search'', JStr ''/m.mv2'', JStr ''q''])]"
  by (simp add: handler_def try_block_def call_cli_def resolvePath_def list_argv_def recall_argv_def
      push_flag_String_def push_flag_def bindF_def own_def CLI_PATH_def ref_host_def
      split: sum.splits prod.splits promise.splits)

subsection \<open>Unknown tools\<close>

text \<open>
  C8. A tool name that is none of the five registered names is answered with the one
  text block \<^verbatim>\<open>Unknown tool: name\<close>, and \<^verbatim>\<open>spawn\<close> is never called.
\<close>

theorem unknown_tool_no_spawn:
  assumes "name' \<notin> set (map name TOOLS)"
  shows "handler H name' args =
           (Resolved \<lparr>content = [\<lparr>block_type = ''text'', block_text = ''Unknown tool: '' @ name'\<rparr>]\<rparr>, [])"
proof -
  have "name' \<noteq> ''memory_remember''" "name' \<noteq> ''memory_recall''" "name' \<noteq> ''memory_list''"
    "name' \<noteq> ''memory_stats''" "name' \<noteq> ''memory_create''"
    using assms by (auto simp: TOOLS_def)
  then show ?thesis
    by (simp add: handler_def try_block_def text_response_def)
qed

theorem unknown_tool_no_spawn_witness:
  "handler (ref_host (Some ''/m.mv2'') not_found) ''memory_forget'' (JObj [(''path'', JStr ''/m.mv2'')]) =
     (Resolved \<lparr>content = [\<lparr>block_type = ''text'', block_text = ''Unknown tool: memory_forget''\<rparr>]\<rparr>, [])"
proof -
  have "''memory_forget'' \<notin> set (map name TOOLS)"
    by (simp add: TOOLS_def)
  from unknown_tool_no_spawn [OF this] show ?thesis by simp
qed

subsection \<open>The shape of what the handler computes\<close>

lemma bindF_Inr: "bindF m f = Inr r \<longleftrightarrow> (\<exists>v. m = Inr v \<and> f v = Inr r)"
  by (cases m) (simp_all add: bindF_def)

lemma bindF_simps: "bindF (Inl e) f = Inl e" "bindF (Inr v) f = f v"
  by (simp_all add: bindF_def)

lemma remember_render_shape:
  "remember_render res d = Inr r \<Longrightarrow> \<exists>t. r = text_response t"
  by (auto simp: remember_render_def bindF_Inr)

lemma create_render_shape:
  "create_render res d = Inr r \<Longrightarrow> \<exists>t. r = text_response t"
  by (auto simp: create_render_def bindF_Inr)

lemma recall_render_shape:
  "recall_render res d = Inr r \<Longrightarrow> \<exists>t. r = text_response t"
  by (auto simp: recall_render_def bindF_Inr split: if_splits)

lemma list_render_shape:
  "list_render H res d = Inr r \<Longrightarrow> \<exists>t. r = text_response t"
  by (auto simp: list_render_def bindF_Inr split: if_splits)

lemma stats_render_shape:
  "stats_render H res d = Inr r \<Longrightarrow> \<exists>t. r = text_response t"
  by (auto simp: stats_render_def bindF_Inr split: if_splits)

lemmas render_shapes = remember_render_shape recall_render_shape list_render_shape
  stats_render_shape create_render_shape

lemma render_failure:
  assumes "\<not> success res"
  shows "remember_render res d = bindF (error_text res d) (\<lambda>t. Inr (text_response t))"
    and "recall_render res d = bindF (error_text res d) (\<lambda>t. Inr (text_response t))"
    and "list_render H res d = bindF (error_text res d) (\<lambda>t. Inr (text_response t))"
    and "stats_render H res d = bindF (error_text res d) (\<lambda>t. Inr (text_response t))"
    and "create_render res d = bindF (error_text res d) (\<lambda>t. Inr (text_response t))"
  using assms
  by (simp_all add: remember_render_def recall_render_def list_render_def stats_render_def
      create_render_def)

text \<open>What a call that reached \<^verbatim>\<open>spawn\<close> computes.\<close>

lemma await_simps:
  "await (Rejected f) rest = Rejected f"
  "await Pending rest = Pending"
  "await (Resolved v) rest = (case rest v of Inl f \<Rightarrow> Rejected f | Inr r \<Rightarrow> Resolved r)"
  by (simp_all add: await_def)

lemma await_Resolved:
  "await p rest = Resolved r \<longleftrightarrow> (\<exists>v. p = Resolved v \<and> rest v = Inr r)"
  by (cases p) (auto simp: await_def split: sum.splits)

lemma await_Pending: "await p rest = Pending \<longleftrightarrow> p = Pending"
  by (cases p) (auto simp: await_def split: sum.splits)

lemma try_block_called:
  assumes "snd (try_block H n a) = [(cmd, argv)]"
  shows "cmd = CLI_PATH H \<and>
         (\<exists>render. render \<in> {remember_render, recall_render, list_render H, stats_render H,
                              create_render} \<and>
            (n = ''memory_remember'' \<longrightarrow> render = remember_render) \<and>
            fst (try_block H n a) =
              await (runCli H argv) (\<lambda>result.
              bindF (JSON_parse H (stdout result)) (\<lambda>data. render result data)))"
  using assms
  by (auto simp: try_block_def call_cli_def split: if_splits sum.splits)

lemma handler_calls: "snd (handler H n a) = snd (try_block H n a)"
  by (simp add: handler_def split: prod.splits promise.splits)

lemma handler_fst:
  "fst (handler H n a) =
     (case fst (try_block H n a) of
        Rejected e \<Rightarrow> Resolved (text_response (''Error: '' @ message e))
      | Resolved r \<Rightarrow> Resolved r
      | Pending \<Rightarrow> Pending)"
  by (simp add: handler_def split: prod.splits promise.splits)

lemma try_block_shape:
  "fst (try_block H n a) = Resolved r \<Longrightarrow> \<exists>t. r = text_response t"
  by (auto simp: try_block_def call_cli_def await_Resolved bindF_Inr split: if_splits sum.splits
      dest: render_shapes)

text \<open>A call stays unanswered exactly when it started a child that never closes.\<close>

lemma call_cli_Pending:
  "fst (call_cli H c render) = Pending \<longleftrightarrow>
     (\<exists>argv. c = Inr argv \<and> spawn H (CLI_PATH H) argv = Unending)"
  by (cases c) (auto simp: call_cli_def await_Pending runCli_def split: spawn_outcome.splits)

lemma call_cli_calls:
  "snd (call_cli H c render) = (case c of Inl e \<Rightarrow> [] | Inr argv \<Rightarrow> [(CLI_PATH H, argv)])"
  by (cases c) (simp_all add: call_cli_def)

lemma try_block_Pending:
  "fst (try_block H n a) = Pending \<longleftrightarrow>
     (\<exists>argv. snd (try_block H n a) = [(CLI_PATH H, argv)] \<and> spawn H (CLI_PATH H) argv = Unending)"
  unfolding try_block_def
  by (simp add: call_cli_Pending call_cli_calls split: sum.splits)


lemma runCli_Spawned:
  "spawn H (CLI_PATH H) argv = Spawned r \<Longrightarrow> runCli H argv = Resolved (settle r)"
  by (simp add: runCli_def)

lemma settle_ProcError:
  "ending r = ProcError m \<Longrightarrow> settle r = \<lparr>success = False, stdout = [], stderr = m\<rparr>"
  by (simp add: settle_def)

subsection \<open>Rendering\<close>

text \<open>
  C5. For memory_remember, when the program was run, exited with code 0 and its output
  parses to a value whose \<^verbatim>\<open>frame_id\<close> converts to the string \<open>s\<close>, the response
  is the one text block \<^verbatim>\<open>Stored in frame s\<close>; for the frame 42 it is
  \<^verbatim>\<open>Stored in frame 42\<close>.
\<close>

theorem remember_success_text:
  assumes "resolvePath H (opt_prop args ''path'') = Inr memPath"
    and "spawn H (CLI_PATH H) (remember_argv memPath args) = Spawned r"
    and "success (settle r)"
    and "JSON_parse H (stdout (settle r)) = Inr data"
    and "get_prop data ''frame_id'' = Inr frame_id"
    and "js_String frame_id = Inr s"
  shows "fst (handler H ''memory_remember'' args) =
           Resolved \<lparr>content = [\<lparr>block_type = ''text'', block_text = ''Stored in frame '' @ s\<rparr>]\<rparr> \<and>
         (frame_id = JNum 42 \<longrightarrow>
            fst (handler H ''memory_remember'' args) =
              Resolved \<lparr>content = [\<lparr>block_type = ''text'', block_text = ''Stored in frame 42''\<rparr>]\<rparr>)"
proof -
  have calls: "snd (try_block H ''memory_remember'' args) = [(CLI_PATH H, remember_argv memPath args)]"
    using handler_remember_calls [OF assms(1)] by (simp add: handler_calls)
  from try_block_called [OF calls]
  have "fst (try_block H ''memory_remember'' args) =
          await (runCli H (remember_argv memPath args)) (\<lambda>result.
          bindF (JSON_parse H (stdout result)) (\<lambda>data. remember_render result data))"
    by auto
  then have "fst (try_block H ''memory_remember'' args) =
      Resolved (text_response (''Stored in frame '' @ s))"
    using assms(3-6)
    by (simp add: runCli_Spawned [OF assms(2)] await_simps bindF_simps remember_render_def
        prop_String_def)
  then have main: "fst (handler H ''memory_remember'' args) =
           Resolved \<lparr>content = [\<lparr>block_type = ''text'', block_text = ''Stored in frame '' @ s\<rparr>]\<rparr>"
    by (simp add: handler_fst text_response_def)
  have "js_String (JNum 42) = Inr ''42''"
    by code_simp
  with main assms(6) show ?thesis by auto
qed

theorem remember_success_text_witness:
  \<open>fst (handler (ref_host (Some ''/m.mv2'') (emits ''{"frame_id": 42}'' '''' 0)) ''memory_remember''
          (JObj [(''content'', JStr ''x'')])) =
     Resolved \<lparr>content = [\<lparr>block_type = ''text'', block_text = ''Stored in frame 42''\<rparr>]\<rparr>\<close>
proof -
  let ?H = \<open>ref_host (Some ''/m.mv2'') (emits ''{"frame_id": 42}'' '''' 0)\<close>
  let ?args = "JObj [(''content'', JStr ''x'')]"
  let ?r = \<open>\<lparr>events = [StdoutData ''{"frame_id": 42}'', StderrData ''''], ending = Close (Some 0)\<rparr>\<close>
  have path: "resolvePath ?H (opt_prop ?args ''path'') = Inr (JStr ''/m.mv2'')"
    by (simp add: resolvePath_def DEFAULT_MEMORY_PATH_def ref_host_def own_def)
  have run: "spawn ?H (CLI_PATH ?H) (remember_argv (JStr ''/m.mv2'') ?args) = Spawned ?r"
    by (simp add: ref_host_def emits_def)
  have res: \<open>settle ?r = \<lparr>success = True, stdout = ''{"frame_id": 42}'', stderr = ''''\<rparr>\<close>
    by (simp add: settle_def trim_def is_space_def)
  have ok: "success (settle ?r)"
    by (simp add: res)
  have \<open>ref_JSON_parse ''{"frame_id": 42}'' = Inr (JObj [(''frame_id'', JNum 42)])\<close>
    by code_simp
  then have parsed: "JSON_parse ?H (stdout (settle ?r)) = Inr (JObj [(''frame_id'', JNum 42)])"
    by (simp add: res ref_host_def)
  have fid: "get_prop (JObj [(''frame_id'', JNum 42)]) ''frame_id'' = Inr (JNum 42)"
    by (simp add: own_def)
  have str: "js_String (JNum 42) = Inr ''42''"
    by code_simp
  show ?thesis
    using remember_success_text [OF path run ok parsed fid str] by simp
qed

text \<open>
  C6 (as amended). For every tool, when the program was run, did not exit with code 0
  and its output parses to an object: if the \<^verbatim>\<open>error\<close> field is truthy the text is
  \<^verbatim>\<open>Error: \<close> followed by that field, whatever the error stream holds; if the field
  is absent or falsy (the empty string, 0, false, null) the text is \<^verbatim>\<open>Error: \<close>
  followed by the captured error stream.
\<close>

theorem failure_text_error_field_or_stderr:
  assumes "snd (handler H name' args) = [(cmd, argv)]"
    and "spawn H cmd argv = Spawned r"
    and "\<not> success (settle r)"
    and "JSON_parse H (stdout (settle r)) = Inr (JObj kvs)"
  shows "(truthy (own kvs ''error'') \<and> js_String (own kvs ''error'') = Inr s \<longrightarrow>
            fst (handler H name' args) =
              Resolved \<lparr>content = [\<lparr>block_type = ''text'', block_text = ''Error: '' @ s\<rparr>]\<rparr>) \<and>
         (\<not> truthy (own kvs ''error'') \<longrightarrow>
            fst (handler H name' args) =
              Resolved \<lparr>content = [\<lparr>block_type = ''text'',
                                block_text = ''Error: '' @ stderr (settle r)\<rparr>]\<rparr>)"
proof -
  from assms(1) have calls: "snd (try_block H name' args) = [(cmd, argv)]"
    by (simp add: handler_calls)
  from try_block_called [OF calls] obtain render where
    cmd: "cmd = CLI_PATH H" and
    render: "render \<in> {remember_render, recall_render, list_render H, stats_render H, create_render}" and
    tb: "fst (try_block H name' args) =
           await (runCli H argv) (\<lambda>result.
           bindF (JSON_parse H (stdout result)) (\<lambda>data. render result data))"
    by blast
  have fail: "render (settle r) (JObj kvs) =
                bindF (error_text (settle r) (JObj kvs)) (\<lambda>t. Inr (text_response t))"
    using render render_failure [OF assms(3)] by auto
  have "fst (try_block H name' args) =
          (case js_String (js_or (own kvs ''error'') (JStr (stderr (settle r)))) of
             Inl e \<Rightarrow> Rejected e
           | Inr s \<Rightarrow> Resolved (text_response (''Error: '' @ s)))"
    using assms(2,4) unfolding tb cmd
    by (simp add: runCli_Spawned await_simps bindF_simps fail error_text_def bindF_def
        split: sum.splits)
  then show ?thesis
    by (auto simp: handler_fst js_or_def text_response_def)
qed

theorem failure_text_error_field_or_stderr_witness:
  \<open>fst (handler (ref_host None (emits ''{"error":"File not found"}'' ''boom'' 1)) ''memory_stats''
          (JObj [(''path'', JStr ''/m.mv2'')])) =
     Resolved \<lparr>content = [\<lparr>block_type = ''text'', block_text = ''Error: File not found''\<rparr>]\<rparr> \<and>
   fst (handler (ref_host None (emits ''{}'' ''boom'' 1)) ''memory_stats''
          (JObj [(''path'', JStr ''/m.mv2'')])) =
     Resolved \<lparr>content = [\<lparr>block_type = ''text'', block_text = ''Error: boom''\<rparr>]\<rparr>\<close>
proof -
  let ?args = "JObj [(''path'', JStr ''/m.mv2'')]"
  let ?argv = "[JStr ''stats'', JStr ''/m.mv2'']"
  have calls: "snd (handler (ref_host None sp) ''memory_stats'' ?args) = [(''memvid'', ?argv)]" for sp
    by (simp add: handler_def try_block_def call_cli_def resolvePath_def bindF_def own_def
        CLI_PATH_def ref_host_def split: sum.splits prod.splits promise.splits)
  have settled: "settle \<lparr>events = [StdoutData out, StderrData ''boom''], ending = Close (Some 1)\<rparr>
      = \<lparr>success = False, stdout = trim out, stderr = ''boom''\<rparr>" for out
    by (simp add: settle_def trim_def is_space_def)
  have p1: \<open>ref_JSON_parse (trim ''{"error":"File not found"}'') =
              Inr (JObj [(''error'', JStr ''File not found'')])\<close>
    and p2: \<open>ref_JSON_parse (trim ''{}'') = Inr (JObj [])\<close>
    by code_simp+
  let ?H1 = \<open>ref_host None (emits ''{"error":"File not found"}'' ''boom'' 1)\<close>
  let ?H2 = \<open>ref_host None (emits ''{}'' ''boom'' 1)\<close>
  let ?r1 = \<open>\<lparr>events = [StdoutData ''{"error":"File not found"}'', StderrData ''boom''],
               ending = Close (Some 1)\<rparr>\<close>
  let ?r2 = \<open>\<lparr>events = [StdoutData ''{}'', StderrData ''boom''], ending = Close (Some 1)\<rparr>\<close>
  have s1: "spawn ?H1 ''memvid'' ?argv = Spawned ?r1" and s2: "spawn ?H2 ''memvid'' ?argv = Spawned ?r2"
    by (simp_all add: ref_host_def emits_def)
  have f1: "\<not> success (settle ?r1)" and f2: "\<not> success (settle ?r2)"
    by (simp_all add: settled)
  have j1: "JSON_parse ?H1 (stdout (settle ?r1)) = Inr (JObj [(''error'', JStr ''File not found'')])"
    and j2: "JSON_parse ?H2 (stdout (settle ?r2)) = Inr (JObj [])"
    by (simp_all add: settled p1 p2 ref_host_def)
  have a: "fst (handler ?H1 ''memory_stats'' ?args) =
     Resolved \<lparr>content = [\<lparr>block_type = ''text'', block_text = ''Error: File not found''\<rparr>]\<rparr>"
    using failure_text_error_field_or_stderr [OF calls s1 f1 j1, of "''File not found''"]
    by (simp add: own_def)
  have b: "fst (handler ?H2 ''memory_stats'' ?args) =
     Resolved \<lparr>content = [\<lparr>block_type = ''text'', block_text = ''Error: boom''\<rparr>]\<rparr>"
    using failure_text_error_field_or_stderr [OF calls s2 f2 j2, of "''x''"]
    by (simp add: own_def settled)
  from a b show ?thesis by simp
qed

text \<open>
  C6 as stated fails: the output \<^verbatim>\<open>{"error":""}\<close> has an \<^verbatim>\<open>error\<close> field, and
  the text is made from the error stream, not from the field.
\<close>

theorem empty_error_field_gives_stderr:
  \<open>ref_JSON_parse ''{"error":""}'' = Inr (JObj [(''error'', JStr '''')]) \<and>
   fst (handler (ref_host None (emits ''{"error":""}'' ''boom'' 1)) ''memory_stats''
          (JObj [(''path'', JStr ''/m.mv2'')])) =
     Resolved \<lparr>content = [\<lparr>block_type = ''text'', block_text = ''Error: boom''\<rparr>]\<rparr> \<and>
   ''Error: boom'' \<noteq> ''Error: '' @ ''''\<close>
proof -
  have p: \<open>ref_JSON_parse ''{"error":""}'' = Inr (JObj [(''error'', JStr '''')])\<close>
    by code_simp
  have t: \<open>trim ''{"error":""}'' = ''{"error":""}''\<close>
    by (simp add: trim_def is_space_def)
  show ?thesis
    by (simp add: p t handler_def try_block_def call_cli_def await_def resolvePath_def runCli_def
        settle_def stats_render_def error_text_def js_or_def bindF_def own_def CLI_PATH_def
        ref_host_def emits_def text_response_def trim_def is_space_def)
qed

subsection \<open>A program that cannot be started\<close>

text \<open>
  C7. When the child emits \<^verbatim>\<open>error\<close> with the message \<open>m\<close> of the operating system,
  \<^verbatim>\<open>runCli\<close> resolves with \<^verbatim>\<open>success\<close> false, an empty \<^verbatim>\<open>stdout\<close> and
  \<^verbatim>\<open>stderr\<close> equal to \<open>m\<close>. The handler then parses the empty output before it looks
  at the result; where \<^verbatim>\<open>JSON.parse\<close> throws on the empty string, as it does, the
  response carries the message of that fault, and \<open>m\<close> is not reported.
\<close>

theorem launch_failure_reports_parse_fault:
  assumes "snd (handler H name' args) = [(cmd, argv)]"
    and "spawn H cmd argv = Spawned r"
    and "ending r = ProcError m"
    and "JSON_parse H [] = Inl f"
  shows "runCli H argv = Resolved \<lparr>success = False, stdout = [], stderr = m\<rparr> \<and>
         fst (handler H name' args) =
           Resolved \<lparr>content = [\<lparr>block_type = ''text'', block_text = ''Error: '' @ message f\<rparr>]\<rparr>"
proof -
  from assms(1) have calls: "snd (try_block H name' args) = [(cmd, argv)]"
    by (simp add: handler_calls)
  from try_block_called [OF calls] obtain render where
    cmd: "cmd = CLI_PATH H" and
    tb: "fst (try_block H name' args) =
           await (runCli H argv) (\<lambda>result.
           bindF (JSON_parse H (stdout result)) (\<lambda>data. render result data))"
    by blast
  have run: "runCli H argv = Resolved \<lparr>success = False, stdout = [], stderr = m\<rparr>"
    using assms(2) runCli_Spawned settle_ProcError [OF assms(3)] cmd by simp
  have "fst (try_block H name' args) = Rejected f"
    unfolding tb run by (simp add: await_simps bindF_simps assms(4))
  then show ?thesis
    using run by (simp add: handler_fst text_response_def)
qed

theorem launch_failure_reports_parse_fault_witness:
  "runCli (ref_host (Some ''/m.mv2'') not_found) [JStr ''stats'', JStr ''/m.mv2''] =
     Resolved \<lparr>success = False, stdout = [], stderr = ''spawn memvid ENOENT''\<rparr> \<and>
   fst (handler (ref_host (Some ''/m.mv2'') not_found) ''memory_stats'' JUndefined) =
     Resolved \<lparr>content = [\<lparr>block_type = ''text'',
                       block_text = ''Error: Unexpected end of JSON input''\<rparr>]\<rparr>"
proof -
  let ?H = "ref_host (Some ''/m.mv2'') not_found"
  let ?argv = "[JStr ''stats'', JStr ''/m.mv2'']"
  let ?r = "\<lparr>events = [], ending = ProcError ''spawn memvid ENOENT''\<rparr>"
  have calls: "snd (handler ?H ''memory_stats'' JUndefined) = [(''memvid'', ?argv)]"
    by (simp add: handler_def try_block_def call_cli_def resolvePath_def DEFAULT_MEMORY_PATH_def
        bindF_def CLI_PATH_def ref_host_def split: sum.splits prod.splits promise.splits)
  have sp: "spawn ?H ''memvid'' ?argv = Spawned ?r"
    by (simp add: ref_host_def not_found_def)
  have en: "ending ?r = ProcError ''spawn memvid ENOENT''"
    by simp
  have "ref_JSON_parse [] = Inl (SyntaxError ''Unexpected end of JSON input'')"
    by code_simp
  then have js: "JSON_parse ?H [] = Inl (SyntaxError ''Unexpected end of JSON input'')"
    by (simp add: ref_host_def)
  show ?thesis
    using launch_failure_reports_parse_fault [OF calls sp en js] by simp
qed

subsection \<open>The failure boundary\<close>

lemma try_block_resolve_fault:
  assumes "name' \<in> {''memory_remember'', ''memory_recall'', ''memory_list'', ''memory_stats''}"
    and "resolvePath H (opt_prop args ''path'') = Inl f"
  shows "try_block H name' args = (Rejected f, [])"
  using assms by (auto simp: try_block_def call_cli_def bindF_simps)

lemma try_block_compile_fault:
  assumes "resolvePath H (opt_prop args ''path'') = Inr memPath"
  shows "recall_argv memPath args = Inl f \<Longrightarrow> try_block H ''memory_recall'' args = (Rejected f, [])"
    and "list_argv memPath args = Inl f \<Longrightarrow> try_block H ''memory_list'' args = (Rejected f, [])"
  using assms by (simp_all add: try_block_def call_cli_def bindF_simps)

lemma handler_of_fault:
  "try_block H n a = (Rejected f, calls) \<Longrightarrow>
     handler H n a = (Resolved (text_response (''Error: '' @ message f)), calls)"
  by (simp add: handler_def)

text \<open>
  C1 (as amended). For every host, tool name and argument bag the promise of the handler
  is never rejected: it is resolved with a response of exactly one block of type text,
  or it stays pending, and it stays pending exactly when the call started a child that
  never emits \<^verbatim>\<open>close\<close> nor \<^verbatim>\<open>error\<close>. So a call that starts no child, or whose
  child ends, gets exactly one response. Whatever the \<^verbatim>\<open>try\<close> block throws becomes the
  text \<^verbatim>\<open>Error: \<close> followed by the message of the fault: a failure of the path
  resolution or of the compilation of the arguments (then without any call of
  \<^verbatim>\<open>spawn\<close>), a \<^verbatim>\<open>spawn\<close> that throws, an output that does not parse.
\<close>

theorem handler_one_text_block_or_pending:
  "(fst (handler H name' args) = Pending \<or>
    (\<exists>t. fst (handler H name' args) =
           Resolved \<lparr>content = [\<lparr>block_type = ''text'', block_text = t\<rparr>]\<rparr>)) \<and>
   (fst (handler H name' args) = Pending \<longleftrightarrow>
      (\<exists>argv. snd (handler H name' args) = [(CLI_PATH H, argv)] \<and>
              spawn H (CLI_PATH H) argv = Unending)) \<and>
   (fst (try_block H name' args) = Rejected f \<longrightarrow>
      fst (handler H name' args) =
        Resolved \<lparr>content = [\<lparr>block_type = ''text'', block_text = ''Error: '' @ message f\<rparr>]\<rparr>) \<and>
   (name' \<in> {''memory_remember'', ''memory_recall'', ''memory_list'', ''memory_stats''} \<and>
    resolvePath H (opt_prop args ''path'') = Inl f \<longrightarrow>
      handler H name' args =
        (Resolved \<lparr>content = [\<lparr>block_type = ''text'', block_text = ''Error: '' @ message f\<rparr>]\<rparr>, [])) \<and>
   (resolvePath H (opt_prop args ''path'') = Inr memPath \<and>
    (name' = ''memory_recall'' \<and> recall_argv memPath args = Inl f \<or>
     name' = ''memory_list'' \<and> list_argv memPath args = Inl f) \<longrightarrow>
      handler H name' args =
        (Resolved \<lparr>content = [\<lparr>block_type = ''text'', block_text = ''Error: '' @ message f\<rparr>]\<rparr>, [])) \<and>
   (snd (handler H name' args) = [(cmd, argv)] \<and> spawn H cmd argv = SpawnThrows f \<longrightarrow>
      fst (handler H name' args) =
        Resolved \<lparr>content = [\<lparr>block_type = ''text'', block_text = ''Error: '' @ message f\<rparr>]\<rparr>) \<and>
   (snd (handler H name' args) = [(cmd, argv)] \<and> spawn H cmd argv = Spawned r \<and>
    JSON_parse H (stdout (settle r)) = Inl f \<longrightarrow>
      fst (handler H name' args) =
        Resolved \<lparr>content = [\<lparr>block_type = ''text'', block_text = ''Error: '' @ message f\<rparr>]\<rparr>)"
proof -
  have one: "fst (handler H name' args) = Pending \<or>
    (\<exists>t. fst (handler H name' args) =
           Resolved \<lparr>content = [\<lparr>block_type = ''text'', block_text = t\<rparr>]\<rparr>)"
  proof (cases "fst (try_block H name' args)")
    case (Rejected e)
    then show ?thesis by (simp add: handler_fst text_response_def)
  next
    case (Resolved r)
    with try_block_shape [of H name' args r] show ?thesis
      by (auto simp: handler_fst text_response_def)
  next
    case Pending
    then show ?thesis by (simp add: handler_fst)
  qed
  have "fst (handler H name' args) = Pending \<longleftrightarrow> fst (try_block H name' args) = Pending"
    by (simp add: handler_fst split: promise.splits)
  then have pending: "fst (handler H name' args) = Pending \<longleftrightarrow>
      (\<exists>argv. snd (handler H name' args) = [(CLI_PATH H, argv)] \<and>
              spawn H (CLI_PATH H) argv = Unending)"
    by (simp add: try_block_Pending handler_calls)
  have caught: "fst (handler H name' args) =
        Resolved \<lparr>content = [\<lparr>block_type = ''text'', block_text = ''Error: '' @ message f\<rparr>]\<rparr>"
    if "fst (try_block H name' args) = Rejected f"
    using that by (simp add: handler_fst text_response_def)
  have resolve: "handler H name' args =
        (Resolved \<lparr>content = [\<lparr>block_type = ''text'', block_text = ''Error: '' @ message f\<rparr>]\<rparr>, [])"
    if "name' \<in> {''memory_remember'', ''memory_recall'', ''memory_list'', ''memory_stats''}"
      and "resolvePath H (opt_prop args ''path'') = Inl f"
    using handler_of_fault [OF try_block_resolve_fault [OF that]] by (simp add: text_response_def)
  have compile: "handler H name' args =
        (Resolved \<lparr>content = [\<lparr>block_type = ''text'', block_text = ''Error: '' @ message f\<rparr>]\<rparr>, [])"
    if "resolvePath H (opt_prop args ''path'') = Inr memPath"
      and "name' = ''memory_recall'' \<and> recall_argv memPath args = Inl f \<or>
           name' = ''memory_list'' \<and> list_argv memPath args = Inl f"
    using that(2) try_block_compile_fault [OF that(1), of f]
    by (auto simp: text_response_def dest!: handler_of_fault)
  have called: "fst (handler H name' args) =
        Resolved \<lparr>content = [\<lparr>block_type = ''text'', block_text = ''Error: '' @ message f\<rparr>]\<rparr>"
    if c: "snd (handler H name' args) = [(cmd, argv)]"
      and "spawn H cmd argv = SpawnThrows f \<or>
           (\<exists>r. spawn H cmd argv = Spawned r \<and> JSON_parse H (stdout (settle r)) = Inl f)"
  proof -
    from c have "snd (try_block H name' args) = [(cmd, argv)]"
      by (simp add: handler_calls)
    from try_block_called [OF this] obtain render where
      cmd: "cmd = CLI_PATH H" and
      tb: "fst (try_block H name' args) =
             await (runCli H argv) (\<lambda>result.
             bindF (JSON_parse H (stdout result)) (\<lambda>data. render result data))"
      by blast
    have "fst (try_block H name' args) = Rejected f"
      using that(2) unfolding tb cmd
      by (auto simp: runCli_def await_simps bindF_simps)
    then show ?thesis by (rule caught)
  qed
  show ?thesis
    using one pending caught resolve compile called by blast
qed

theorem handler_one_text_block_or_pending_witness:
  "handler (ref_host None not_found) ''memory_stats'' JUndefined =
     (Resolved \<lparr>content = [\<lparr>block_type = ''text'', block_text = ''Error: '' @ no_path_message\<rparr>]\<rparr>, []) \<and>
   handler (ref_host (Some ''/m.mv2'') not_found) ''memory_recall''
       (JObj [(''query'', JStr ''q''), (''limit'', JObj [(''toString'', JNum 1)])]) =
     (Resolved \<lparr>content = [\<lparr>block_type = ''text'',
                       block_text = ''Error: Cannot convert object to primitive value''\<rparr>]\<rparr>, []) \<and>
   fst (handler (ref_host (Some ''/m.mv2'') (rejects (TypeError ''invalid argument'')))
          ''memory_stats'' JUndefined) =
     Resolved \<lparr>content = [\<lparr>block_type = ''text'', block_text = ''Error: invalid argument''\<rparr>]\<rparr> \<and>
   fst (handler (ref_host (Some ''/m.mv2'') (emits ''not a memory file'' '''' 0))
          ''memory_stats'' JUndefined) =
     Resolved \<lparr>content = [\<lparr>block_type = ''text'', block_text = ''Error: Unexpected token in JSON''\<rparr>]\<rparr> \<and>
   fst (handler (ref_host (Some ''/m.mv2'') waits_for_input) ''memory_stats'' JUndefined) = Pending"
proof -
  let ?argv = "[JStr ''stats'', JStr ''/m.mv2'']"
  have calls: "snd (handler (ref_host (Some ''/m.mv2'') sp) ''memory_stats'' JUndefined) =
      [(''memvid'', ?argv)]" for sp
    by (simp add: handler_def try_block_def call_cli_def resolvePath_def DEFAULT_MEMORY_PATH_def
        bindF_def CLI_PATH_def ref_host_def split: sum.splits prod.splits promise.splits)
  have a: "handler (ref_host None not_found) ''memory_stats'' JUndefined =
     (Resolved \<lparr>content = [\<lparr>block_type = ''text'', block_text = ''Error: '' @ no_path_message\<rparr>]\<rparr>, [])"
    using handler_one_text_block_or_pending
      [where H = "ref_host None not_found" and name' = "''memory_stats''" and args = JUndefined
         and f = "Error no_path_message"]
    by (simp add: resolvePath_def DEFAULT_MEMORY_PATH_def ref_host_def)
  let ?bag = "JObj [(''query'', JStr ''q''), (''limit'', JObj [(''toString'', JNum 1)])]"
  have "recall_argv (JStr ''/m.mv2'') ?bag = Inl (TypeError ''Cannot convert object to primitive value'')"
    by (simp add: recall_argv_def push_flag_def push_flag_String_def own_def bindF_def)
  then have b: "handler (ref_host (Some ''/m.mv2'') not_found) ''memory_recall'' ?bag =
     (Resolved \<lparr>content = [\<lparr>block_type = ''text'',
                       block_text = ''Error: Cannot convert object to primitive value''\<rparr>]\<rparr>, [])"
    using handler_one_text_block_or_pending
      [where H = "ref_host (Some ''/m.mv2'') not_found" and name' = "''memory_recall''"
         and args = ?bag and memPath = "JStr ''/m.mv2''"
         and f = "TypeError ''Cannot convert object to primitive value''"]
    by (simp add: resolvePath_def DEFAULT_MEMORY_PATH_def ref_host_def own_def)
  have c: "fst (handler (ref_host (Some ''/m.mv2'') (rejects (TypeError ''invalid argument'')))
          ''memory_stats'' JUndefined) =
     Resolved \<lparr>content = [\<lparr>block_type = ''text'', block_text = ''Error: invalid argument''\<rparr>]\<rparr>"
    using handler_one_text_block_or_pending
      [where H = "ref_host (Some ''/m.mv2'') (rejects (TypeError ''invalid argument''))"
         and name' = "''memory_stats''" and args = JUndefined and cmd = "''memvid''"
         and argv = ?argv and f = "TypeError ''invalid argument''"]
    by (simp add: calls) (simp add: ref_host_def rejects_def)
  let ?r = "\<lparr>events = [StdoutData ''not a memory file'', StderrData ''''], ending = Close (Some 0)\<rparr>"
  have out: "stdout (settle ?r) = ''not a memory file''"
    by (simp add: settle_def trim_def is_space_def)
  have "ref_JSON_parse ''not a memory file'' = Inl (SyntaxError ''Unexpected token in JSON'')"
    by code_simp
  then have d: "fst (handler (ref_host (Some ''/m.mv2'') (emits ''not a memory file'' '''' 0))
          ''memory_stats'' JUndefined) =
     Resolved \<lparr>content = [\<lparr>block_type = ''text'', block_text = ''Error: Unexpected token in JSON''\<rparr>]\<rparr>"
    using handler_one_text_block_or_pending
      [where H = "ref_host (Some ''/m.mv2'') (emits ''not a memory file'' '''' 0)"
         and name' = "''memory_stats''" and args = JUndefined and cmd = "''memvid''"
         and argv = ?argv and r = ?r and f = "SyntaxError ''Unexpected token in JSON''"]
    by (simp add: calls out) (simp add: ref_host_def emits_def)
  have cli: "CLI_PATH (ref_host (Some ''/m.mv2'') sp) = ''memvid''" for sp
    by (simp add: CLI_PATH_def ref_host_def)
  have e: "fst (handler (ref_host (Some ''/m.mv2'') waits_for_input) ''memory_stats'' JUndefined) = Pending"
    using handler_one_text_block_or_pending
      [where H = "ref_host (Some ''/m.mv2'') waits_for_input"
         and name' = "''memory_stats''" and args = JUndefined]
    by (simp add: calls cli) (simp add: ref_host_def waits_for_input_def)
  from a b c d e show ?thesis by blast
qed

text \<open>
  C1 as stated fails: memory_remember with an empty content passes no \<^verbatim>\<open>--content\<close>,
  the program waits for its standard input, which nothing ends, and the call gets no
  response.
\<close>

theorem unending_child_no_response:
  "snd (handler (ref_host (Some ''/m.mv2'') waits_for_input) ''memory_remember''
          (JObj [(''content'', JStr '''')])) =
     [(''memvid'', [JStr ''put'', JStr ''/m.mv2''])] \<and>
   fst (handler (ref_host (Some ''/m.mv2'') waits_for_input) ''memory_remember''
          (JObj [(''content'', JStr '''')])) = Pending"
  by (simp add: handler_def try_block_def call_cli_def await_def runCli_def resolvePath_def
      DEFAULT_MEMORY_PATH_def remember_argv_def push_flag_def bindF_def own_def CLI_PATH_def
      ref_host_def waits_for_input_def split: sum.splits prod.splits promise.splits)

end
